theory Spec2Isabelle
  imports Complex_Main "HOL-Library.Char_ord" "HOL-Library.List_Lexorder"
begin

section \<open>Numbers\<close>

text \<open>
  A TypeScript \<open>number\<close> is modelled by its mathematical value: a rational, or one of
  the three special values. Arithmetic is exact: the rounding of binary64, its overflow
  and the sign of zero are outside the model. The operations below follow the IEEE rules
  for the special values.
\<close>

datatype jsnum = NaN | Fin rat | PosInf | NegInf

definition inf_of_sign :: "bool \<Rightarrow> jsnum" where
  "inf_of_sign negative = (if negative then NegInf else PosInf)"

fun js_neg :: "jsnum \<Rightarrow> jsnum" where
  "js_neg NaN = NaN"
| "js_neg (Fin a) = Fin (- a)"
| "js_neg PosInf = NegInf"
| "js_neg NegInf = PosInf"

fun js_add :: "jsnum \<Rightarrow> jsnum \<Rightarrow> jsnum" where
  "js_add NaN y = NaN"
| "js_add x NaN = NaN"
| "js_add (Fin a) (Fin b) = Fin (a + b)"
| "js_add PosInf NegInf = NaN"
| "js_add NegInf PosInf = NaN"
| "js_add PosInf y = PosInf"
| "js_add NegInf y = NegInf"
| "js_add (Fin a) y = y"

definition js_sub :: "jsnum \<Rightarrow> jsnum \<Rightarrow> jsnum" where
  "js_sub x y = js_add x (js_neg y)"

text \<open>\<open>is_negative\<close> is only applied to values other than \<open>NaN\<close>.\<close>

fun is_negative :: "jsnum \<Rightarrow> bool" where
  "is_negative (Fin a) = (a < 0)"
| "is_negative NegInf = True"
| "is_negative x = False"

fun js_mul :: "jsnum \<Rightarrow> jsnum \<Rightarrow> jsnum" where
  "js_mul NaN y = NaN"
| "js_mul x NaN = NaN"
| "js_mul (Fin a) (Fin b) = Fin (a * b)"
| "js_mul (Fin a) y = (if a = 0 then NaN else inf_of_sign (is_negative (Fin a) \<noteq> is_negative y))"
| "js_mul x (Fin b) = (if b = 0 then NaN else inf_of_sign (is_negative x \<noteq> is_negative (Fin b)))"
| "js_mul x y = inf_of_sign (is_negative x \<noteq> is_negative y)"

text \<open>Division; a zero divisor is taken as positive zero.\<close>

fun js_div :: "jsnum \<Rightarrow> jsnum \<Rightarrow> jsnum" where
  "js_div NaN y = NaN"
| "js_div x NaN = NaN"
| "js_div (Fin a) (Fin b) =
     (if b = 0 then (if a = 0 then NaN else inf_of_sign (a < 0)) else Fin (a / b))"
| "js_div (Fin a) y = Fin 0"
| "js_div x (Fin b) = inf_of_sign (is_negative x \<noteq> (b < 0))"
| "js_div x y = NaN"

text \<open>The comparisons \<open>x > y\<close> and \<open>x <= y\<close>: false as soon as one side is \<open>NaN\<close>.\<close>

fun js_less :: "jsnum \<Rightarrow> jsnum \<Rightarrow> bool" where
  "js_less NaN y = False"
| "js_less x NaN = False"
| "js_less (Fin a) (Fin b) = (a < b)"
| "js_less x PosInf = (x \<noteq> PosInf)"
| "js_less NegInf y = (y \<noteq> NegInf)"
| "js_less x y = False"

definition js_gt :: "jsnum \<Rightarrow> jsnum \<Rightarrow> bool" where
  "js_gt x y = js_less y x"

definition js_le :: "jsnum \<Rightarrow> jsnum \<Rightarrow> bool" where
  "js_le x y = (x \<noteq> NaN \<and> y \<noteq> NaN \<and> (js_less x y \<or> x = y))"


text \<open>Truthiness of a number: every number but zero and \<open>NaN\<close>.\<close>

definition truthy :: "jsnum \<Rightarrow> bool" where
  "truthy x = (x \<noteq> NaN \<and> x \<noteq> Fin 0)"

text \<open>\<open>x || 0\<close> on a number \<open>x\<close>.\<close>

definition or_zero :: "jsnum \<Rightarrow> jsnum" where
  "or_zero x = (if truthy x then x else Fin 0)"

section \<open>Strings and \<open>parseFloat\<close>\<close>

definition is_digit :: "char \<Rightarrow> bool" where
  "is_digit c = (CHR ''0'' \<le> c \<and> c \<le> CHR ''9'')"

definition digit_value :: "char \<Rightarrow> nat" where
  "digit_value c = of_char c - 48"

text \<open>The value of a digit sequence, most significant digit first.\<close>

definition digits_value :: "string \<Rightarrow> nat" where
  "digits_value ds = foldl (\<lambda>acc c. 10 * acc + digit_value c) 0 ds"

text \<open>The white space and line terminators of the ASCII range.\<close>

definition is_space :: "char \<Rightarrow> bool" where
  "is_space c = (c \<in> set [CHR 0x09, CHR 0x0A, CHR 0x0B, CHR 0x0C, CHR 0x0D, CHR 0x20])"

text \<open>An optional sign in front of the rest of the input.\<close>

fun take_sign :: "string \<Rightarrow> bool \<times> string" where
  "take_sign [] = (False, [])"
| "take_sign (c # cs) =
     (if c = CHR ''-'' then (True, cs)
      else if c = CHR ''+'' then (False, cs)
      else (False, c # cs))"

text \<open>
  The exponent part that follows the mantissa: \<open>e\<close> or \<open>E\<close>, an optional sign, and at
  least one digit. Anything else is no exponent part, and the literal ends before it.
\<close>

fun exponent_part :: "string \<Rightarrow> int" where
  "exponent_part [] = 0"
| "exponent_part (c # cs) =
     (if c = CHR ''e'' \<or> c = CHR ''E'' then
        (let (negative, rest) = take_sign cs;
             ds = takeWhile is_digit rest
         in if ds = [] then 0
            else if negative then - int (digits_value ds)
            else int (digits_value ds))
      else 0)"

definition scale10 :: "rat \<Rightarrow> int \<Rightarrow> rat" where
  "scale10 m e = (if 0 \<le> e then m * 10 ^ nat e else m / 10 ^ nat (- e))"

text \<open>The fraction digits after the integer digits: present when a point follows.\<close>

fun fraction_part :: "string \<Rightarrow> string \<times> string" where
  "fraction_part [] = ([], [])"
| "fraction_part (c # cs) =
     (if c = CHR ''.'' then (takeWhile is_digit cs, dropWhile is_digit cs)
      else ([], c # cs))"

text \<open>
  \<open>parseFloat\<close>: leading white space is dropped, and the longest prefix that is a
  decimal literal (sign, \<open>Infinity\<close> or digits with an optional fraction and exponent)
  gives the value; with no such prefix the result is \<open>NaN\<close>.
\<close>

definition parseFloat :: "string \<Rightarrow> jsnum" where
  "parseFloat s =
     (let (negative, u) = take_sign (dropWhile is_space s) in
      if take 8 u = ''Infinity'' then inf_of_sign negative
      else
        (let ip = takeWhile is_digit u;
             (fp, rest) = fraction_part (dropWhile is_digit u)
         in if ip = [] \<and> fp = [] then NaN
            else
              (let m = scale10 (of_nat (digits_value (ip @ fp)) / 10 ^ length fp)
                         (exponent_part rest)
               in Fin (if negative then - m else m))))"

section \<open>The calculator\<close>

text \<open>
  The test \<open>/^\d*\.?\d*$/\<close> of \<open>handleInputChange\<close>: digits, at most one point,
  digits, and nothing else up to the end of the input.
\<close>

definition decimal_input_test :: "string \<Rightarrow> bool" where
  "decimal_input_test v =
     (let r1 = dropWhile is_digit v;
          r2 = (case r1 of [] \<Rightarrow> [] | c # cs \<Rightarrow> if c = CHR ''.'' then cs else c # cs)
      in dropWhile is_digit r2 = [])"

record File =
  name :: string
  bytes :: string

text \<open>
  The state of the \<open>Calculator\<close> component. \<open>brlCopRate\<close> is \<open>None\<close> while it is
  \<open>null\<close>; \<open>error\<close> likewise.
\<close>

record Calculator =
  nequi :: string
  bancolombia :: string
  daviplata :: string
  selectedDate :: string
  comprobanteFile :: "File option"
  brlCopRate :: "jsnum option"
  isLoadingRate :: bool
  error :: "string option"

text \<open>The four values of the memoised liquidation computation.\<close>

record Liquidation =
  saldoMovimiento :: jsnum
  comision :: jsnum
  liquidoCOP :: jsnum
  totalBRL :: jsnum

definition liquidation :: "Calculator \<Rightarrow> Liquidation" where
  "liquidation c =
     (let nequiValue = or_zero (parseFloat (nequi c));
          bancolombiaValue = or_zero (parseFloat (bancolombia c));
          daviplataValue = or_zero (parseFloat (daviplata c));
          saldo = js_add (js_add nequiValue bancolombiaValue) daviplataValue;
          com = js_mul saldo (Fin (1 / 10));
          liquido = js_sub saldo com;
          brl = (case brlCopRate c of
                   None \<Rightarrow> Fin 0
                 | Some rate \<Rightarrow>
                     if truthy rate \<and> js_gt rate (Fin 0) then js_div liquido rate else Fin 0)
      in \<lparr>saldoMovimiento = saldo, comision = com, liquidoCOP = liquido, totalBRL = brl\<rparr>)"






section \<open>The exchange rate service\<close>



definition is_rate_char :: "char \<Rightarrow> bool" where
  "is_rate_char c = (is_digit c \<or> c = CHR ''.'')"

text \<open>\<open>text.match(/[\d.]+/)\<close>: the first maximal run of digits and points, if any.\<close>

definition first_match :: "string \<Rightarrow> string option" where
  "first_match t =
     (let u = dropWhile (\<lambda>c. \<not> is_rate_char c) t
      in if u = [] then None else Some (takeWhile is_rate_char u))"







section \<open>Records and the application state\<close>

text \<open>
  \<open>RecordData\<close> holds the fields that a new record and a stored record share;
  \<open>LiquidationRecord\<close> adds the identifier and the object URL of the proof, and
  \<open>NewRecordData\<close> (the argument of \<open>onAddToHistory\<close>) adds the file.
\<close>

record RecordData =
  fecha :: string
  valorCop :: jsnum
  comisionCop :: jsnum
  liquidoCop :: jsnum
  tasaBrlCop :: jsnum
  totalBrl :: jsnum
  comprobanteName :: string

record LiquidationRecord = RecordData +
  id' :: string
  comprobanteUrl :: string

record NewRecordData = RecordData +
  file' :: File

datatype Page = PageCalculator | PageHistory

record App =
  page :: Page
  history :: "LiquidationRecord list"

text \<open>
  The three messages that the components pass to \<open>alert\<close>:
  the success message of \<open>handleAddToHistory\<close>, the refusal of
  \<open>handleRegisterClick\<close> and the refusal of \<open>handleExportCsv\<close>.
\<close>

datatype alert = RegistradaConExito | ParaRegistrar | NoHayRegistros

text \<open>
  What the handlers do to the browser, in the order of the calls: the blocking
  \<open>alert\<close> prompts, the \<open>URL.revokeObjectURL\<close> calls, and the files offered for
  download (name and content).
\<close>

record Browser =
  alerts :: "alert list"
  revoked :: "string list"
  downloads :: "(string \<times> string) list"

definition show_alert :: "alert \<Rightarrow> Browser \<Rightarrow> Browser" where
  "show_alert m b = b\<lparr>alerts := alerts b @ [m]\<rparr>"

definition revokeObjectURL :: "string \<Rightarrow> Browser \<Rightarrow> Browser" where
  "revokeObjectURL u b = b\<lparr>revoked := revoked b @ [u]\<rparr>"

text \<open>
  The cleanup function of the effect of \<open>App\<close>, for the value of \<open>history\<close> that
  the effect was created with.
\<close>

definition history_effect_cleanup :: "LiquidationRecord list \<Rightarrow> Browser \<Rightarrow> Browser" where
  "history_effect_cleanup h b = foldl (\<lambda>b' r. revokeObjectURL (comprobanteUrl r) b') b h"

text \<open>
  \<open>setHistory\<close> with an updater function. The updater runs on the previous list (the
  one of \<open>handleDeleteRecord\<close> calls the browser itself). Every updater of \<open>App\<close>
  builds a new array, so the component renders again with a changed dependency
  \<open>[history]\<close>, and the cleanup of the effect of the previous render runs.
\<close>

definition setHistory ::
  "(LiquidationRecord list \<Rightarrow> Browser \<Rightarrow> LiquidationRecord list \<times> Browser) \<Rightarrow>
   App \<times> Browser \<Rightarrow> App \<times> Browser" where
  "setHistory updater ab =
     (let (a, b) = ab;
          prevHistory = history a;
          (nextHistory, b1) = updater prevHistory b
      in (a\<lparr>history := nextHistory\<rparr>, history_effect_cleanup prevHistory b1))"

text \<open>
  \<open>newId\<close> stands for the string built from \<open>Date.now()\<close> and \<open>Math.random()\<close>,
  \<open>newUrl\<close> for the result of \<open>URL.createObjectURL\<close>.
\<close>

definition handleAddToHistory ::
  "string \<Rightarrow> string \<Rightarrow> NewRecordData \<Rightarrow> App \<times> Browser \<Rightarrow> App \<times> Browser" where
  "handleAddToHistory newId newUrl newRecordData ab =
     (let newRecord =
            \<lparr>fecha = fecha newRecordData, valorCop = valorCop newRecordData,
             comisionCop = comisionCop newRecordData, liquidoCop = liquidoCop newRecordData,
             tasaBrlCop = tasaBrlCop newRecordData, totalBrl = totalBrl newRecordData,
             comprobanteName = name (file' newRecordData),
             id' = newId, comprobanteUrl = newUrl\<rparr>;
          (a, b) = setHistory (\<lambda>prevHistory b. (newRecord # prevHistory, b)) ab
      in (a, show_alert RegistradaConExito b))"

definition delete_updater ::
  "string \<Rightarrow> LiquidationRecord list \<Rightarrow> Browser \<Rightarrow> LiquidationRecord list \<times> Browser" where
  "delete_updater recordId prevHistory b =
     (let b1 = (case find (\<lambda>r. id' r = recordId) prevHistory of
                  Some recordToDelete \<Rightarrow> revokeObjectURL (comprobanteUrl recordToDelete) b
                | None \<Rightarrow> b)
      in (filter (\<lambda>record. id' record \<noteq> recordId) prevHistory, b1))"

definition handleDeleteRecord :: "string \<Rightarrow> App \<times> Browser \<Rightarrow> App \<times> Browser" where
  "handleDeleteRecord recordId ab = setHistory (delete_updater recordId) ab"

definition update_updater ::
  "LiquidationRecord \<Rightarrow> LiquidationRecord list \<Rightarrow> LiquidationRecord list" where
  "update_updater updatedRecord prevHistory =
     map (\<lambda>record. if id' record = id' updatedRecord then updatedRecord else record) prevHistory"

definition handleUpdateRecord :: "LiquidationRecord \<Rightarrow> App \<times> Browser \<Rightarrow> App \<times> Browser" where
  "handleUpdateRecord updatedRecord ab =
     setHistory (\<lambda>prevHistory b. (update_updater updatedRecord prevHistory, b)) ab"

text \<open>\<open>!brlCopRate\<close>: the rate is \<open>null\<close>, zero or \<open>NaN\<close>.\<close>

definition rate_unset :: "jsnum option \<Rightarrow> bool" where
  "rate_unset r = (case r of None \<Rightarrow> True | Some rate \<Rightarrow> \<not> truthy rate)"

text \<open>
  \<open>handleRegisterClick\<close>. Past the guard the rate and the file are there; the last
  \<open>case\<close> reads them, and its other branch is never taken.
\<close>

definition handleRegisterClick ::
  "string \<Rightarrow> string \<Rightarrow> Calculator \<times> App \<times> Browser \<Rightarrow> Calculator \<times> App \<times> Browser" where
  "handleRegisterClick newId newUrl cab =
     (let (c, a, b) = cab;
          l = liquidation c
      in if js_le (liquidoCOP l) (Fin 0) \<or> rate_unset (brlCopRate c) \<or> comprobanteFile c = None
         then (c, a, show_alert ParaRegistrar b)
         else
           (case (brlCopRate c, comprobanteFile c) of
              (Some rate, Some f) \<Rightarrow>
                (let (a1, b1) =
                       handleAddToHistory newId newUrl
                         \<lparr>fecha = selectedDate c, valorCop = saldoMovimiento l,
                          comisionCop = comision l, liquidoCop = liquidoCOP l,
                          tasaBrlCop = rate, totalBrl = totalBRL l,
                          comprobanteName = name f, file' = f\<rparr>
                         (a, b)
                 in (c\<lparr>nequi := [], bancolombia := [], daviplata := [],
                       comprobanteFile := None\<rparr>, a1, b1))
            | _ \<Rightarrow> (c, a, show_alert ParaRegistrar b)))"

section \<open>The edit dialog\<close>


section \<open>The history page and the CSV export\<close>

text \<open>The state of the \<open>History\<close> component; an empty date string is a bound not set.\<close>

record History =
  editingRecord :: "LiquidationRecord option"
  startDate :: string
  endDate :: string

text \<open>
  The predicate given to \<open>records.filter\<close>. Dates are compared as strings, character
  by character.
\<close>

definition in_date_range :: "string \<Rightarrow> string \<Rightarrow> LiquidationRecord \<Rightarrow> bool" where
  "in_date_range start end' record =
     (if start = [] \<and> end' = [] then True
      else
        (let recordIsAfterStartDate = (if start \<noteq> [] then start \<le> fecha record else True);
             recordIsBeforeEndDate = (if end' \<noteq> [] then fecha record \<le> end' else True)
         in recordIsAfterStartDate \<and> recordIsBeforeEndDate))"

definition filteredRecords ::
  "string \<Rightarrow> string \<Rightarrow> LiquidationRecord list \<Rightarrow> LiquidationRecord list" where
  "filteredRecords start end' records = filter (in_date_range start end') records"

text \<open>\<open>Array.prototype.join\<close> on strings.\<close>

fun join :: "string \<Rightarrow> string list \<Rightarrow> string" where
  "join sep [] = []"
| "join sep [x] = x"
| "join sep (x # y # ys) = x @ sep @ join sep (y # ys)"

definition headers :: "string list" where
  "headers = [''Fecha'', ''Valor COP'', ''Comision COP'', ''Liquido COP'', ''TASA BRL/COP'',
              ''TOTAL BRL'', ''COMPROBANTE'']"

definition double_quote :: char where
  "double_quote = CHR 0x22"

definition newline :: char where
  "newline = CHR 0x0A"

definition needs_quotes :: "string \<Rightarrow> bool" where
  "needs_quotes cellString =
     (CHR '','' \<in> set cellString \<or> double_quote \<in> set cellString \<or> newline \<in> set cellString)"

text \<open>\<open>cellString.replace(/"/g, '""')\<close>.\<close>

definition double_the_quotes :: "string \<Rightarrow> string" where
  "double_the_quotes cellString =
     concat (map (\<lambda>c. if c = double_quote then [double_quote, double_quote] else [c]) cellString)"

definition sanitizeCell :: "string \<Rightarrow> string" where
  "sanitizeCell cellString =
     (if needs_quotes cellString
      then [double_quote] @ double_the_quotes cellString @ [double_quote]
      else cellString)"

definition digit_char :: "nat \<Rightarrow> char" where
  "digit_char d = char_of (48 + d)"

text \<open>The decimal digits of a natural number; \<open>0\<close> for zero.\<close>

fun digits_of :: "nat \<Rightarrow> string" where
  "digits_of n = (if n < 10 then [digit_char n] else digits_of (n div 10) @ [digit_char (n mod 10)])"

text \<open>
  \<open>Number.prototype.toFixed\<close> with \<open>f\<close> fraction digits. The integer \<open>n\<close> is the one
  for which \<open>n / 10^f\<close> is nearest to the value, the larger one of two. A value that is
  not finite prints as its name, and from \<open>10^21\<close> on the result is the string that
  \<open>Number::toString\<close> gives, in exponent notation. The digits of that string are those
  of the binary64 value, so \<open>numberToString\<close> is a parameter here.
\<close>

definition fixed_digits :: "nat \<Rightarrow> rat \<Rightarrow> string" where
  "fixed_digits f x =
     (let n = nat \<lfloor>x * 10 ^ f + 1 / 2\<rfloor>;
          m = digits_of n
      in if f = 0 then m
         else
           (let m1 = (if length m \<le> f then replicate (f + 1 - length m) CHR ''0'' @ m else m);
                k = length m1
            in take (k - f) m1 @ ''.'' @ drop (k - f) m1))"

definition toFixed :: "(rat \<Rightarrow> string) \<Rightarrow> nat \<Rightarrow> jsnum \<Rightarrow> string" where
  "toFixed numberToString f x =
     (case x of
        NaN \<Rightarrow> ''NaN''
      | PosInf \<Rightarrow> ''Infinity''
      | NegInf \<Rightarrow> ''-Infinity''
      | Fin q \<Rightarrow>
          (let s = (if q < 0 then ''-'' else []);
               a = \<bar>q\<bar>
           in if 10 ^ 21 \<le> a then s @ numberToString a else s @ fixed_digits f a))"

definition csvRow :: "(rat \<Rightarrow> string) \<Rightarrow> LiquidationRecord \<Rightarrow> string" where
  "csvRow numberToString r =
     join '',''
       [fecha r,
        toFixed numberToString 2 (valorCop r),
        toFixed numberToString 2 (comisionCop r),
        toFixed numberToString 2 (liquidoCop r),
        toFixed numberToString 2 (tasaBrlCop r),
        toFixed numberToString 2 (totalBrl r),
        sanitizeCell (comprobanteName r)]"

definition csvString :: "(rat \<Rightarrow> string) \<Rightarrow> LiquidationRecord list \<Rightarrow> string" where
  "csvString numberToString rs = join [newline] (join '','' headers # map (csvRow numberToString) rs)"

definition download :: "string \<Rightarrow> string \<Rightarrow> Browser \<Rightarrow> Browser" where
  "download fileName content b = b\<lparr>downloads := downloads b @ [(fileName, content)]\<rparr>"

text \<open>
  \<open>handleExportCsv\<close>. \<open>today\<close> is the date part of \<open>new Date().toISOString()\<close>,
  \<open>blobUrl\<close> the object URL created for the blob, which is revoked after the click on
  the link.
\<close>

definition handleExportCsv ::
  "(rat \<Rightarrow> string) \<Rightarrow> string \<Rightarrow> string \<Rightarrow> LiquidationRecord list \<Rightarrow>
   History \<times> Browser \<Rightarrow> History \<times> Browser" where
  "handleExportCsv numberToString today blobUrl records hb =
     (let (h, b) = hb;
          selected = filteredRecords (startDate h) (endDate h) records
      in if length selected = 0 then (h, show_alert NoHayRegistros b)
         else
           (h, revokeObjectURL blobUrl
                 (download (''historial_liquidaciones_'' @ today @ ''.csv'')
                    (csvString numberToString selected) b)))"

text \<open>
  The value of \<open>Number::toString\<close> at \<open>10^21\<close>, the one point where the examples below
  reach the exponent notation.
\<close>

definition numberToString_1e21 :: "rat \<Rightarrow> string" where
  "numberToString_1e21 a = ''1e+21''"

section \<open>Sessions of the calculator page\<close>





section \<open>The words of the specification\<close>






section \<open>Example data\<close>

definition example_file :: File where
  "example_file = \<lparr>name = ''pago.pdf'', bytes = []\<rparr>"

definition example_calculator :: Calculator where
  "example_calculator =
     \<lparr>nequi = ''100000'', bancolombia = ''50000'', daviplata = [],
      selectedDate = ''2024-03-15'', comprobanteFile = Some example_file,
      brlCopRate = Some (Fin 750), isLoadingRate = False, error = None\<rparr>"

definition example_record :: LiquidationRecord where
  "example_record =
     \<lparr>fecha = ''2024-03-15'', valorCop = Fin 150000, comisionCop = Fin 15000,
      liquidoCop = Fin 135000, tasaBrlCop = Fin 750, totalBrl = Fin 180,
      comprobanteName = ''pago.pdf'', id' = ''1710500000000-0.25'',
      comprobanteUrl = ''blob:proof-1''\<rparr>"

definition older_record :: LiquidationRecord where
  "older_record =
     \<lparr>fecha = ''2024-01-10'', valorCop = Fin 2000, comisionCop = Fin 200,
      liquidoCop = Fin 1800, tasaBrlCop = Fin 750, totalBrl = Fin (12 / 5),
      comprobanteName = ''recibo, enero.png'', id' = ''1704900000000-0.5'',
      comprobanteUrl = ''blob:proof-0''\<rparr>"

definition empty_browser :: Browser where
  "empty_browser = \<lparr>alerts = [], revoked = [], downloads = []\<rparr>"

section \<open>Reading decimal strings\<close>

declare digits_of.simps [simp del]



lemma not_digit_point [simp]: "\<not> is_digit CHR ''.''"
  by (simp add: is_digit_def)









section \<open>The liquidation formulas\<close>



section \<open>The amount fields\<close>

lemma empty_accepted [simp]: "decimal_input_test []"
  by (simp add: decimal_input_test_def)









section \<open>Confirming a liquidation\<close>

text \<open>
  Claim C2. A click on the register button is refused when the net amount is not above
  zero, or when the rate is not set (\<open>null\<close>) or zero, or when no proof file is
  attached, each case on its own: the calculator and the stored records stay as they
  are, and the only effect is one blocking prompt.
\<close>

theorem C2_confirmation_rejected:
  assumes "js_le (liquidoCOP (liquidation c)) (Fin 0)
           \<or> brlCopRate c = None \<or> brlCopRate c = Some (Fin 0)
           \<or> comprobanteFile c = None"
  shows "handleRegisterClick newId newUrl (c, a, b) = (c, a, b\<lparr>alerts := alerts b @ [ParaRegistrar]\<rparr>)"
proof -
  have "js_le (liquidoCOP (liquidation c)) (Fin 0) \<or> rate_unset (brlCopRate c)
        \<or> comprobanteFile c = None"
    using assms by (auto simp: rate_unset_def truthy_def)
  then show ?thesis
    by (simp add: handleRegisterClick_def show_alert_def Let_def)
qed

text \<open>
  The three cases one by one, from the example form: no amounts, no rate, no file.
\<close>

theorem C2_confirmation_rejected_witness:
  "handleRegisterClick ''id'' ''blob:new''
     (example_calculator\<lparr>nequi := [], bancolombia := []\<rparr>,
      \<lparr>page = PageCalculator, history = [older_record]\<rparr>, empty_browser)
   = (example_calculator\<lparr>nequi := [], bancolombia := []\<rparr>,
      \<lparr>page = PageCalculator, history = [older_record]\<rparr>,
      \<lparr>alerts = [ParaRegistrar], revoked = [], downloads = []\<rparr>)
   \<and> handleRegisterClick ''id'' ''blob:new''
     (example_calculator\<lparr>brlCopRate := None\<rparr>,
      \<lparr>page = PageCalculator, history = [older_record]\<rparr>, empty_browser)
   = (example_calculator\<lparr>brlCopRate := None\<rparr>,
      \<lparr>page = PageCalculator, history = [older_record]\<rparr>,
      \<lparr>alerts = [ParaRegistrar], revoked = [], downloads = []\<rparr>)
   \<and> handleRegisterClick ''id'' ''blob:new''
     (example_calculator\<lparr>comprobanteFile := None\<rparr>,
      \<lparr>page = PageCalculator, history = [older_record]\<rparr>, empty_browser)
   = (example_calculator\<lparr>comprobanteFile := None\<rparr>,
      \<lparr>page = PageCalculator, history = [older_record]\<rparr>,
      \<lparr>alerts = [ParaRegistrar], revoked = [], downloads = []\<rparr>)"
proof -
  have p: "parseFloat [] = NaN" by (simp add: parseFloat_def)
  have z: "js_le (liquidoCOP (liquidation (example_calculator\<lparr>nequi := [], bancolombia := []\<rparr>))) (Fin 0)"
    by (simp add: liquidation_def example_calculator_def p or_zero_def truthy_def js_sub_def
          js_le_def Let_def)
  show ?thesis
    using C2_confirmation_rejected
            [of "example_calculator\<lparr>nequi := [], bancolombia := []\<rparr>" "''id''" "''blob:new''"
                "\<lparr>page = PageCalculator, history = [older_record]\<rparr>" empty_browser]
          C2_confirmation_rejected
            [of "example_calculator\<lparr>brlCopRate := None\<rparr>" "''id''" "''blob:new''"
                "\<lparr>page = PageCalculator, history = [older_record]\<rparr>" empty_browser]
          C2_confirmation_rejected
            [of "example_calculator\<lparr>comprobanteFile := None\<rparr>" "''id''" "''blob:new''"
                "\<lparr>page = PageCalculator, history = [older_record]\<rparr>" empty_browser]
          z
    by (simp add: empty_browser_def)
qed

section \<open>The record store\<close>

lemma cleanup_fields:
  "revoked (history_effect_cleanup h b) = revoked b @ map comprobanteUrl h"
  "alerts (history_effect_cleanup h b) = alerts b"
  "downloads (history_effect_cleanup h b) = downloads b"
  unfolding history_effect_cleanup_def
  by (induction h arbitrary: b) (simp_all add: revokeObjectURL_def)

lemma setHistory_app:
  "fst (setHistory updater (a, b)) = a\<lparr>history := fst (updater (history a) b)\<rparr>"
  by (simp add: setHistory_def Let_def split: prod.splits)

lemma setHistory_browser:
  "snd (setHistory updater (a, b)) = history_effect_cleanup (history a) (snd (updater (history a) b))"
  by (simp add: setHistory_def Let_def split: prod.splits)

lemma add_history:
  "history (fst (handleAddToHistory newId newUrl d (a, b))) =
     \<lparr>fecha = fecha d, valorCop = valorCop d, comisionCop = comisionCop d,
      liquidoCop = liquidoCop d, tasaBrlCop = tasaBrlCop d, totalBrl = totalBrl d,
      comprobanteName = name (file' d), id' = newId, comprobanteUrl = newUrl\<rparr> # history a"
  by (simp add: handleAddToHistory_def setHistory_def Let_def split: prod.splits)

text \<open>
  Claim C6. Adding a record puts it in front of the list, and the records that were
  there follow it in their order. The order is the order of insertion, newest first,
  whatever the dates: of two records added one after the other, the second comes first.
\<close>

theorem C6_add_prepends:
  "history (fst (handleAddToHistory newId newUrl d (a, b))) =
     \<lparr>fecha = fecha d, valorCop = valorCop d, comisionCop = comisionCop d,
      liquidoCop = liquidoCop d, tasaBrlCop = tasaBrlCop d, totalBrl = totalBrl d,
      comprobanteName = name (file' d), id' = newId, comprobanteUrl = newUrl\<rparr> # history a
   \<and> history (fst (handleAddToHistory newId2 newUrl2 d2 (handleAddToHistory newId newUrl d (a, b)))) =
     \<lparr>fecha = fecha d2, valorCop = valorCop d2, comisionCop = comisionCop d2,
      liquidoCop = liquidoCop d2, tasaBrlCop = tasaBrlCop d2, totalBrl = totalBrl d2,
      comprobanteName = name (file' d2), id' = newId2, comprobanteUrl = newUrl2\<rparr>
     # \<lparr>fecha = fecha d, valorCop = valorCop d, comisionCop = comisionCop d,
      liquidoCop = liquidoCop d, tasaBrlCop = tasaBrlCop d, totalBrl = totalBrl d,
      comprobanteName = name (file' d), id' = newId, comprobanteUrl = newUrl\<rparr>
     # history a"
proof -
  obtain a1 b1 where s: "handleAddToHistory newId newUrl d (a, b) = (a1, b1)"
    by (cases "handleAddToHistory newId newUrl d (a, b)") auto
  have "history a1 = \<lparr>fecha = fecha d, valorCop = valorCop d, comisionCop = comisionCop d,
      liquidoCop = liquidoCop d, tasaBrlCop = tasaBrlCop d, totalBrl = totalBrl d,
      comprobanteName = name (file' d), id' = newId, comprobanteUrl = newUrl\<rparr> # history a"
    using add_history [of newId newUrl d a b] s by simp
  then show ?thesis
    using add_history [of newId2 newUrl2 d2 a1 b1] s by simp
qed

text \<open>
  Deleting. The updater of \<open>handleDeleteRecord\<close> keeps the records with another
  identifier, in their order, and revokes the URL of the first record that has the
  identifier, when there is one. The cleanup of the effect then revokes the URL of every
  record of the previous list.
\<close>

lemma delete_updater_history:
  "fst (delete_updater recordId h b) = filter (\<lambda>r. id' r \<noteq> recordId) h"
  by (simp add: delete_updater_def Let_def)

lemma delete_updater_revoked:
  "revoked (snd (delete_updater recordId h b)) =
     revoked b @ (case find (\<lambda>r. id' r = recordId) h of
                    None \<Rightarrow> [] | Some r \<Rightarrow> [comprobanteUrl r])"
  by (simp add: delete_updater_def Let_def revokeObjectURL_def split: option.splits)

lemma delete_updater_absent:
  assumes "\<forall>r\<in>set h. id' r \<noteq> recordId"
  shows "delete_updater recordId h b = (h, b)"
proof -
  have "find (\<lambda>r. id' r = recordId) h = None" using assms by (simp add: find_None_iff)
  moreover have "filter (\<lambda>r. id' r \<noteq> recordId) h = h" using assms by (simp add: filter_id_conv)
  ultimately show ?thesis by (simp add: delete_updater_def)
qed

lemma handleDeleteRecord_history:
  "history (fst (handleDeleteRecord recordId (a, b))) = filter (\<lambda>r. id' r \<noteq> recordId) (history a)"
  by (simp add: handleDeleteRecord_def setHistory_app delete_updater_history)

lemma handleDeleteRecord_revoked:
  "revoked (snd (handleDeleteRecord recordId (a, b))) =
     revoked b
     @ (case find (\<lambda>r. id' r = recordId) (history a) of
          None \<Rightarrow> [] | Some r \<Rightarrow> [comprobanteUrl r])
     @ map comprobanteUrl (history a)"
  by (simp add: handleDeleteRecord_def setHistory_browser cleanup_fields delete_updater_revoked)

text \<open>
  Claim C7. The claim is that deleting a record releases its object URL exactly once.
  On a store that holds the example record alone, deleting it removes the record and
  calls \<open>revokeObjectURL\<close> twice on its URL: the updater revokes it, and then the
  cleanup of the effect of \<open>App\<close>, which depends on \<open>[history]\<close> and so runs at every
  change of the list and not only when the component unmounts, revokes it again.
\<close>

theorem C7_delete_revokes_twice:
  "handleDeleteRecord ''1710500000000-0.25''
     (\<lparr>page = PageHistory, history = [example_record]\<rparr>, empty_browser)
   = (\<lparr>page = PageHistory, history = []\<rparr>,
      \<lparr>alerts = [], revoked = [''blob:proof-1'', ''blob:proof-1''], downloads = []\<rparr>)"
  by (simp add: handleDeleteRecord_def setHistory_def delete_updater_def
        history_effect_cleanup_def revokeObjectURL_def example_record_def empty_browser_def)

text \<open>
  Claim C8. Updating replaces the records whose identifier is the one of the updated
  record and leaves every other record as it is; the list keeps its length and its
  order. When no record has the identifier the list is unchanged. No prompt is shown,
  and the page stays.
\<close>

theorem C8_update_replaces_matching:
  "(let h = history a; h' = history (fst (handleUpdateRecord u (a, b)))
    in length h' = length h
       \<and> (\<forall>i<length h. h' ! i = (if id' (h ! i) = id' u then u else h ! i))
       \<and> ((\<forall>r\<in>set h. id' r \<noteq> id' u) \<longrightarrow> h' = h))
   \<and> page (fst (handleUpdateRecord u (a, b))) = page a
   \<and> alerts (snd (handleUpdateRecord u (a, b))) = alerts b"
proof -
  have h: "history (fst (handleUpdateRecord u (a, b))) = update_updater u (history a)"
    by (simp add: handleUpdateRecord_def setHistory_app)
  have same: "(\<forall>r\<in>set (history a). id' r \<noteq> id' u) \<longrightarrow> update_updater u (history a) = history a"
    by (simp add: update_updater_def map_idI)
  show ?thesis
    using same
    by (simp add: h Let_def handleUpdateRecord_def setHistory_app setHistory_browser cleanup_fields)
       (simp add: update_updater_def)
qed

text \<open>
  Updating the older one of two records, and updating with an identifier that no record
  has.
\<close>

theorem C8_update_replaces_matching_witness:
  "history (fst (handleUpdateRecord (older_record\<lparr>valorCop := Fin 3000\<rparr>)
       (\<lparr>page = PageHistory, history = [example_record, older_record]\<rparr>, empty_browser)))
     = [example_record, older_record\<lparr>valorCop := Fin 3000\<rparr>]
   \<and> history (fst (handleUpdateRecord (older_record\<lparr>id' := ''unknown''\<rparr>)
       (\<lparr>page = PageHistory, history = [example_record, older_record]\<rparr>, empty_browser)))
     = [example_record, older_record]"
  using C8_update_replaces_matching
          [of "\<lparr>page = PageHistory, history = [example_record, older_record]\<rparr>"
              "older_record\<lparr>valorCop := Fin 3000\<rparr>" empty_browser]
        C8_update_replaces_matching
          [of "\<lparr>page = PageHistory, history = [example_record, older_record]\<rparr>"
              "older_record\<lparr>id' := ''unknown''\<rparr>" empty_browser]
  by (simp add: handleUpdateRecord_def setHistory_def update_updater_def Let_def
        example_record_def older_record_def)

section \<open>Listing by date range\<close>

lemma in_date_range_iff:
  "in_date_range start end' =
     (\<lambda>r. (start = [] \<or> start \<le> fecha r) \<and> (end' = [] \<or> fecha r \<le> end'))"
  by (rule ext) (auto simp: in_date_range_def Let_def)

text \<open>
  Claim C5. The listing by date range returns, in the stored order, exactly the records
  whose date is at or after the start bound and at or before the end bound, each bound
  counting only when it is set. With both bounds unset it returns every record. When no
  record matches, the result is the empty list.
\<close>

theorem C5_date_range_listing:
  "filteredRecords start end' rs =
     filter (\<lambda>r. (start = [] \<or> start \<le> fecha r) \<and> (end' = [] \<or> fecha r \<le> end')) rs
   \<and> filteredRecords [] [] rs = rs
   \<and> ((\<forall>r\<in>set rs. \<not> ((start = [] \<or> start \<le> fecha r) \<and> (end' = [] \<or> fecha r \<le> end')))
        \<longrightarrow> filteredRecords start end' rs = [])"
  by (simp add: filteredRecords_def in_date_range_iff filter_empty_conv)

text \<open>Two records, with a start bound, an end bound, both, and a start after both dates.\<close>

theorem C5_date_range_listing_witness:
  "filteredRecords ''2024-02-01'' [] [example_record, older_record] = [example_record]
   \<and> filteredRecords [] ''2024-02-01'' [example_record, older_record] = [older_record]
   \<and> filteredRecords ''2024-01-01'' ''2024-12-31'' [example_record, older_record]
       = [example_record, older_record]
   \<and> filteredRecords ''2025-01-01'' [] [example_record, older_record] = []"
  using C5_date_range_listing [of "''2024-02-01''" "[]" "[example_record, older_record]"]
        C5_date_range_listing [of "[]" "''2024-02-01''" "[example_record, older_record]"]
        C5_date_range_listing [of "''2024-01-01''" "''2024-12-31''" "[example_record, older_record]"]
        C5_date_range_listing [of "''2025-01-01''" "[]" "[example_record, older_record]"]
  by (simp add: example_record_def older_record_def)

section \<open>The CSV export\<close>

lemma join_Cons: "join sep (x # xs) = x @ concat (map (\<lambda>y. sep @ y) xs)"
  by (induction xs arbitrary: x) simp_all

lemma csvString_rows:
  "csvString nts rs = join '','' headers @ concat (map (\<lambda>r. newline # csvRow nts r) rs)"
  by (simp add: csvString_def join_Cons comp_def)

lemma csvString_not_header:
  assumes "rs \<noteq> []"
  shows "csvString nts rs \<noteq> join '','' headers"
proof -
  obtain r rest where "rs = r # rest" using assms by (cases rs) auto
  then show ?thesis by (simp add: csvString_rows)
qed

text \<open>
  Claim C4. When no record lies in the chosen date range, the export shows one blocking
  prompt and does nothing else: no file is offered, and the page state and the rest of
  the browser state stay as they are. When a file is offered, its text has the rows of
  the selected records after the header row, so it is never the header row alone.
\<close>

theorem C4_export_refused_when_empty:
  "(filteredRecords (startDate h) (endDate h) records = [] \<longrightarrow>
      handleExportCsv nts today blobUrl records (h, b)
        = (h, b\<lparr>alerts := alerts b @ [NoHayRegistros]\<rparr>))
   \<and> (filteredRecords (startDate h) (endDate h) records \<noteq> [] \<longrightarrow>
      handleExportCsv nts today blobUrl records (h, b)
        = (h, b\<lparr>downloads := downloads b @
                   [(''historial_liquidaciones_'' @ today @ ''.csv'',
                     csvString nts (filteredRecords (startDate h) (endDate h) records))],
                 revoked := revoked b @ [blobUrl]\<rparr>)
      \<and> csvString nts (filteredRecords (startDate h) (endDate h) records) \<noteq> join '','' headers)"
  by (simp add: handleExportCsv_def Let_def show_alert_def download_def revokeObjectURL_def
        csvString_not_header)

text \<open>An export with a start date after every record, and one that selects a record.\<close>

theorem C4_export_refused_when_empty_witness:
  "handleExportCsv numberToString_1e21 ''2024-04-01'' ''blob:csv''
     [example_record, older_record]
     (\<lparr>editingRecord = None, startDate = ''2025-01-01'', endDate = []\<rparr>, empty_browser)
   = (\<lparr>editingRecord = None, startDate = ''2025-01-01'', endDate = []\<rparr>,
      \<lparr>alerts = [NoHayRegistros], revoked = [], downloads = []\<rparr>)
   \<and> downloads (snd (handleExportCsv numberToString_1e21 ''2024-04-01'' ''blob:csv''
        [example_record, older_record]
        (\<lparr>editingRecord = None, startDate = ''2024-02-01'', endDate = []\<rparr>, empty_browser)))
     = [(''historial_liquidaciones_2024-04-01.csv'',
         csvString numberToString_1e21 [example_record])]"
proof -
  have f: "filteredRecords ''2025-01-01'' [] [example_record, older_record] = []"
    "filteredRecords ''2024-02-01'' [] [example_record, older_record] = [example_record]"
    by (simp_all add: filteredRecords_def in_date_range_def example_record_def older_record_def)
  show ?thesis
    using C4_export_refused_when_empty
            [of "\<lparr>editingRecord = None, startDate = ''2025-01-01'', endDate = []\<rparr>"
                "[example_record, older_record]" numberToString_1e21 "''2024-04-01''" "''blob:csv''"
                empty_browser]
          C4_export_refused_when_empty
            [of "\<lparr>editingRecord = None, startDate = ''2024-02-01'', endDate = []\<rparr>"
                "[example_record, older_record]" numberToString_1e21 "''2024-04-01''" "''blob:csv''"
                empty_browser]
    by (simp add: f empty_browser_def)
qed

section \<open>The format of the CSV text\<close>




lemma digits_of_not_Nil: "digits_of n \<noteq> []"
  by (simp add: digits_of.simps [of n])




















section \<open>Fetching the rate\<close>


lemma first_match_None:
  "first_match t = None \<longleftrightarrow> (\<forall>c\<in>set t. \<not> is_rate_char c)"
  by (auto simp: first_match_def Let_def dropWhile_eq_Nil_conv)














end
